theory Spec2Isabelle
  imports Complex_Main
begin

section \<open>Python and NumPy values used by the finite-difference engine\<close>

text \<open>
  The module \<^verbatim>\<open>pennylane/_grad.py\<close> contains three finite-difference operations:
  \<^verbatim>\<open>finite_diff\<close>, \<^verbatim>\<open>_fd_first_order_centered\<close> and \<^verbatim>\<open>_fd_second_order_centered\<close>.
  A Python float is read as a real number within the range of a double: sums,
  differences and products are exact, and the power \<^verbatim>\<open>delta ** n\<close> raises outside that
  range. An array has a shape, an element type (\<^verbatim>\<open>float64\<close> or \<^verbatim>\<open>int64\<close>) and its
  elements. The user function is a deterministic function that returns; every call
  the engine makes to it is recorded, in order, in a trace returned beside the result.
\<close>

text \<open>The payload of each \<^verbatim>\<open>ValueError\<close> the module can raise: the values its message is
  formatted from.\<close>

datatype message =
    ArgnumMsg int int
  | DeltaMsg real
  | IdxLengthMsg nat "int list" nat
  | IdxBoundsMsg "int list" "int list"
  | IdxCountMsg nat
  | RangeMsg int int "int option"
  | UnpackMsg nat nat

datatype error = ValueError message | IndexError | ZeroDivisionError | OverflowError

subsection \<open>The power of a float\<close>

text \<open>The largest double, and \<^verbatim>\<open>d ** n\<close> for a float \<open>d\<close> and an integer \<open>n\<close>: zero to a
  negative power raises \<^verbatim>\<open>ZeroDivisionError\<close>, a result beyond the largest double raises
  \<^verbatim>\<open>OverflowError\<close>.\<close>

definition float_max :: real where
  "float_max = 2 ^ 1024 - 2 ^ 971"

definition py_pow :: "real \<Rightarrow> int \<Rightarrow> error + real" where
  "py_pow d n =
     (if d = 0 \<and> n < 0 then Inl ZeroDivisionError
      else if abs (d powi n) > float_max then Inl OverflowError
      else Inr (d powi n))"

subsection \<open>Arrays\<close>

text \<open>The element type of an array: \<^verbatim>\<open>float64\<close>, \<^verbatim>\<open>int64\<close>, or \<^verbatim>\<open>object\<close> for the container
  the first-order operator returns. Storing a float (within the range of \<^verbatim>\<open>int64\<close>) into an
  integer array truncates it towards zero.\<close>

datatype dtype = Float64 | Int64 | Object

definition astype :: "dtype \<Rightarrow> real \<Rightarrow> real" where
  "astype dt v =
     (case dt of
        Int64 \<Rightarrow> of_int (if 0 \<le> v then \<lfloor>v\<rfloor> else \<lceil>v\<rceil>)
      | _ \<Rightarrow> v)"

definition promote :: "dtype \<Rightarrow> dtype \<Rightarrow> dtype" where
  "promote a b =
     (if a = Object \<or> b = Object then Object
      else if a = Float64 \<or> b = Float64 then Float64
      else Int64)"

text \<open>An array: its shape, its element type and its elements in row-major order. A
  Python number passed through \<^verbatim>\<open>_np.array\<close> is the zero-dimensional case, shape \<open>[]\<close>
  with one element: a float gives \<^verbatim>\<open>float64\<close>, an integer \<^verbatim>\<open>int64\<close>.\<close>

record 'a ndarray =
  shape :: "nat list"
  dtype :: dtype
  data :: "'a list"

definition ndim :: "'a ndarray \<Rightarrow> nat" where
  "ndim a = length (shape a)"

definition np_size :: "'a ndarray \<Rightarrow> nat" where
  "np_size a = prod_list (shape a)"

definition wf_array :: "'a ndarray \<Rightarrow> bool" where
  "wf_array a \<longleftrightarrow> length (data a) = prod_list (shape a)"

text \<open>A slot of an array of dtype object made by \<^verbatim>\<open>zeros_like(x, dtype="O")\<close>: the integer
  zero it starts with, or a value stored later.\<close>

datatype 'r slot = Zero | Value 'r

text \<open>\<^verbatim>\<open>zeros_like(x)\<close> keeps the shape and the element type of \<open>x\<close>.\<close>

definition zeros_like :: "'a ndarray \<Rightarrow> real ndarray" where
  "zeros_like a = \<lparr>shape = shape a, dtype = dtype a, data = replicate (np_size a) 0\<rparr>"

definition zeros_like_obj :: "'a ndarray \<Rightarrow> 'r slot ndarray" where
  "zeros_like_obj a = \<lparr>shape = shape a, dtype = Object, data = replicate (np_size a) Zero\<rparr>"

definition np_add :: "real ndarray \<Rightarrow> real ndarray \<Rightarrow> real ndarray" where
  "np_add a b =
     \<lparr>shape = shape a, dtype = promote (dtype a) (dtype b), data = map2 (+) (data a) (data b)\<rparr>"

definition np_sub :: "real ndarray \<Rightarrow> real ndarray \<Rightarrow> real ndarray" where
  "np_sub a b =
     \<lparr>shape = shape a, dtype = promote (dtype a) (dtype b), data = map2 (-) (data a) (data b)\<rparr>"

subsection \<open>Indexing\<close>

text \<open>One component of an index on an axis of size \<open>n\<close>: a negative component counts
  from the end, and a component outside the axis raises \<^verbatim>\<open>IndexError\<close>.\<close>

definition axis_index :: "nat \<Rightarrow> int \<Rightarrow> error + nat" where
  "axis_index n c =
     (let k = (if c < 0 then c + int n else c)
      in if 0 \<le> k \<and> k < int n then Inr (nat k) else Inl IndexError)"

text \<open>The elements an index tuple addresses: the first flat position and the number
  of positions (one for a full index, a whole block for a shorter one, the whole
  array for the empty tuple). More components than axes raise \<^verbatim>\<open>IndexError\<close>.\<close>

fun locate :: "nat list \<Rightarrow> int list \<Rightarrow> error + (nat \<times> nat)" where
  "locate sh [] = Inr (0, prod_list sh)"
| "locate [] (c # cs) = Inl IndexError"
| "locate (n # sh) (c # cs) =
     (case axis_index n c of
        Inl e \<Rightarrow> Inl e
      | Inr k \<Rightarrow>
          (case locate sh cs of
             Inl e \<Rightarrow> Inl e
           | Inr (lo, cnt) \<Rightarrow> Inr (k * prod_list sh + lo, cnt)))"

definition slice_update :: "nat \<Rightarrow> nat \<Rightarrow> ('a \<Rightarrow> 'a) \<Rightarrow> 'a list \<Rightarrow> 'a list" where
  "slice_update lo cnt g xs = take lo xs @ map g (take cnt (drop lo xs)) @ drop (lo + cnt) xs"

text \<open>\<^verbatim>\<open>a[idx] = g(a[idx])\<close> on the addressed elements.\<close>

definition np_modify :: "'a ndarray \<Rightarrow> int list \<Rightarrow> ('a \<Rightarrow> 'a) \<Rightarrow> error + 'a ndarray" where
  "np_modify a idx g =
     (case locate (shape a) idx of
        Inl e \<Rightarrow> Inl e
      | Inr (lo, cnt) \<Rightarrow> Inr (a\<lparr>data := slice_update lo cnt g (data a)\<rparr>))"

text \<open>The update \<^verbatim>\<open>a[idx] += v\<close> and the assignment \<^verbatim>\<open>a[idx] = v\<close> of a float \<open>v\<close> on a
  numeric array: the stored value is converted to the element type of \<open>a\<close>.\<close>

definition np_iadd :: "real ndarray \<Rightarrow> int list \<Rightarrow> real \<Rightarrow> error + real ndarray" where
  "np_iadd a idx v = np_modify a idx (\<lambda>u. astype (dtype a) (u + v))"

definition np_setitem :: "real ndarray \<Rightarrow> int list \<Rightarrow> real \<Rightarrow> error + real ndarray" where
  "np_setitem a idx v = np_modify a idx (\<lambda>_. astype (dtype a) v)"

text \<open>Reading one element by a full index tuple.\<close>

definition np_item :: "'a ndarray \<Rightarrow> int list \<Rightarrow> error + 'a" where
  "np_item a idx =
     (if length idx \<noteq> ndim a then Inl IndexError
      else case locate (shape a) idx of
             Inl e \<Rightarrow> Inl e
           | Inr (lo, cnt) \<Rightarrow> Inr (data a ! lo))"

text \<open>\<^verbatim>\<open>list(_np.ndindex(*shape))\<close>: every multi-index, last axis fastest.\<close>

fun ndindex :: "nat list \<Rightarrow> int list list" where
  "ndindex [] = [[]]"
| "ndindex (n # sh) = concat (map (\<lambda>k. map (\<lambda>r. int k # r) (ndindex sh)) [0..<n])"

subsection \<open>Tuples of positional arguments\<close>

text \<open>\<^verbatim>\<open>args[n]\<close>, \<^verbatim>\<open>args[:n]\<close> and \<^verbatim>\<open>args[n:]\<close> on a Python tuple, negative \<open>n\<close> included.\<close>

definition py_getitem :: "'a list \<Rightarrow> int \<Rightarrow> error + 'a" where
  "py_getitem xs n =
     (let k = (if n < 0 then n + int (length xs) else n)
      in if 0 \<le> k \<and> k < int (length xs) then Inr (xs ! nat k) else Inl IndexError)"

definition py_slice_to :: "'a list \<Rightarrow> int \<Rightarrow> 'a list" where
  "py_slice_to xs n = (if n < 0 then take (nat (int (length xs) + n)) xs else take (nat n) xs)"

definition py_slice_from :: "'a list \<Rightarrow> int \<Rightarrow> 'a list" where
  "py_slice_from xs n = (if n < 0 then drop (nat (int (length xs) + n)) xs else drop (nat n) xs)"

text \<open>The positional arguments of a call \<^verbatim>\<open>f(*args[:argnum], y, *args[argnum + 1 :], **kwargs)\<close>.\<close>

definition call_args :: "'a list \<Rightarrow> int \<Rightarrow> 'a \<Rightarrow> 'a list" where
  "call_args args argnum y = py_slice_to args argnum @ [y] @ py_slice_from args (argnum + 1)"

section \<open>The finite-difference operations\<close>

subsection \<open>Validation of a supplied \<^verbatim>\<open>idx\<close>\<close>

text \<open>The loop \<^verbatim>\<open>for _idx in idx\<close> shared by both operators: the length of each tuple is
  compared with \<^verbatim>\<open>x.ndim\<close>, then its components with \<^verbatim>\<open>bounds = _np.array(x.shape) - 1\<close>;
  the first failure raises.\<close>

definition bounds_of :: "'a ndarray \<Rightarrow> int list" where
  "bounds_of x = map (\<lambda>n. int n - 1) (shape x)"

fun check_idx :: "'a ndarray \<Rightarrow> int list list \<Rightarrow> error option" where
  "check_idx x [] = None"
| "check_idx x (t # ts) =
     (if length t \<noteq> ndim x then Some (ValueError (IdxLengthMsg (ndim x) t (length t)))
      else if list_ex (\<lambda>(c, b). c > b) (zip t (bounds_of x))
           then Some (ValueError (IdxBoundsMsg (bounds_of x) t))
      else check_idx x ts)"

subsection \<open>\<^verbatim>\<open>_fd_first_order_centered\<close>\<close>

text \<open>The loop \<^verbatim>\<open>for i in idx\<close>: the gradient container and the trace of calls of \<open>f\<close>
  are threaded through. In each round \<open>f\<close> is called twice, then \<^verbatim>\<open>delta ** -1\<close> is
  computed, then the product is stored.\<close>

fun fd1_loop ::
  "(real ndarray list \<Rightarrow> 'k \<Rightarrow> 'r::real_vector) \<Rightarrow> int \<Rightarrow> real \<Rightarrow> real ndarray list \<Rightarrow> 'k \<Rightarrow>
   real ndarray \<Rightarrow> int list list \<Rightarrow> 'r slot ndarray \<Rightarrow> (real ndarray list \<times> 'k) list \<Rightarrow>
   (error + 'r slot ndarray) \<times> (real ndarray list \<times> 'k) list" where
  "fd1_loop f argnum delta args kwargs x [] gradient tr = (Inr gradient, tr)"
| "fd1_loop f argnum delta args kwargs x (i # rest) gradient tr =
     (case np_iadd (zeros_like x) i (0.5 * delta) of
        Inl e \<Rightarrow> (Inl e, tr)
      | Inr shift \<Rightarrow>
          (let plus = call_args args argnum (np_add x shift);
               minus = call_args args argnum (np_sub x shift);
               tr' = tr @ [(plus, kwargs), (minus, kwargs)]
           in case py_pow delta (- 1) of
                Inl e \<Rightarrow> (Inl e, tr')
              | Inr r \<Rightarrow>
                  (case np_modify gradient i
                          (\<lambda>_. Value (scaleR r (f plus kwargs - f minus kwargs))) of
                     Inl e \<Rightarrow> (Inl e, tr')
                   | Inr gradient' \<Rightarrow>
                       fd1_loop f argnum delta args kwargs x rest gradient' tr')))"

definition fd_first_order_centered ::
  "(real ndarray list \<Rightarrow> 'k \<Rightarrow> 'r::real_vector) \<Rightarrow> int \<Rightarrow> real \<Rightarrow> real ndarray list \<Rightarrow>
   int list list option \<Rightarrow> 'k \<Rightarrow> (error + 'r slot ndarray) \<times> (real ndarray list \<times> 'k) list" where
  "fd_first_order_centered f argnum delta args idx kwargs =
     (if argnum > int (length args) - 1
        then (Inl (ValueError (ArgnumMsg (int (length args) - 1) argnum)), [])
      else if delta \<le> 0 then (Inl (ValueError (DeltaMsg delta)), [])
      else case py_getitem args argnum of
        Inl e \<Rightarrow> (Inl e, [])
      | Inr x \<Rightarrow>
         (case (case idx of
                  None \<Rightarrow> Inr (ndindex (shape x))
                | Some ts \<Rightarrow> (case check_idx x ts of Some e \<Rightarrow> Inl e | None \<Rightarrow> Inr ts)) of
            Inl e \<Rightarrow> (Inl e, [])
          | Inr ts \<Rightarrow> fd1_loop f argnum delta args kwargs x ts (zeros_like_obj x) []))"

subsection \<open>\<^verbatim>\<open>_fd_second_order_centered\<close>\<close>

text \<open>The diagonal branch \<^verbatim>\<open>if i == j\<close>: three calls of \<open>f\<close>, left to right, then
  \<^verbatim>\<open>delta ** -2\<close>.\<close>

definition fd2_diagonal ::
  "(real ndarray list \<Rightarrow> 'k \<Rightarrow> 'r::real_vector) \<Rightarrow> int \<Rightarrow> real \<Rightarrow> real ndarray list \<Rightarrow> 'k \<Rightarrow>
   real ndarray \<Rightarrow> int list \<Rightarrow> (error + 'r) \<times> (real ndarray list \<times> 'k) list" where
  "fd2_diagonal f argnum delta args kwargs x i =
     (case np_iadd (zeros_like x) i delta of
        Inl e \<Rightarrow> (Inl e, [])
      | Inr shift \<Rightarrow>
          (let a1 = call_args args argnum (np_add x shift);
               a2 = call_args args argnum x;
               a3 = call_args args argnum (np_sub x shift)
           in (case py_pow delta (- 2) of
                 Inl e \<Rightarrow> Inl e
               | Inr r \<Rightarrow>
                   Inr (scaleR r (f a1 kwargs - scaleR 2 (f a2 kwargs) + f a3 kwargs)),
               [(a1, kwargs), (a2, kwargs), (a3, kwargs)])))"

text \<open>The off-diagonal branch \<^verbatim>\<open>if i != j\<close>: four calls of \<open>f\<close>, left to right, then
  \<^verbatim>\<open>delta ** -2\<close>.\<close>

definition fd2_off_diagonal ::
  "(real ndarray list \<Rightarrow> 'k \<Rightarrow> 'r::real_vector) \<Rightarrow> int \<Rightarrow> real \<Rightarrow> real ndarray list \<Rightarrow> 'k \<Rightarrow>
   real ndarray \<Rightarrow> int list \<Rightarrow> int list \<Rightarrow> (error + 'r) \<times> (real ndarray list \<times> 'k) list" where
  "fd2_off_diagonal f argnum delta args kwargs x i j =
     (case np_iadd (zeros_like x) i (0.5 * delta) of
        Inl e \<Rightarrow> (Inl e, [])
      | Inr shift_i \<Rightarrow>
         (case np_iadd (zeros_like x) j (0.5 * delta) of
            Inl e \<Rightarrow> (Inl e, [])
          | Inr shift_j \<Rightarrow>
             (let a1 = call_args args argnum (np_add (np_add x shift_i) shift_j);
                  a2 = call_args args argnum (np_add (np_sub x shift_i) shift_j);
                  a3 = call_args args argnum (np_sub (np_add x shift_i) shift_j);
                  a4 = call_args args argnum (np_sub (np_sub x shift_i) shift_j)
              in (case py_pow delta (- 2) of
                    Inl e \<Rightarrow> Inl e
                  | Inr r \<Rightarrow>
                      Inr (scaleR r
                             (f a1 kwargs - f a2 kwargs - f a3 kwargs + f a4 kwargs)),
                  [(a1, kwargs), (a2, kwargs), (a3, kwargs), (a4, kwargs)]))))"

definition fd_second_order_centered ::
  "(real ndarray list \<Rightarrow> 'k \<Rightarrow> 'r::real_vector) \<Rightarrow> int \<Rightarrow> real \<Rightarrow> real ndarray list \<Rightarrow>
   int list list option \<Rightarrow> 'k \<Rightarrow> (error + 'r) \<times> (real ndarray list \<times> 'k) list" where
  "fd_second_order_centered f argnum delta args idx kwargs =
     (if argnum > int (length args) - 1
        then (Inl (ValueError (ArgnumMsg (int (length args) - 1) argnum)), [])
      else if delta \<le> 0 then (Inl (ValueError (DeltaMsg delta)), [])
      else case py_getitem args argnum of
        Inl e \<Rightarrow> (Inl e, [])
      | Inr x \<Rightarrow>
         (case (case idx of
                  None \<Rightarrow> Inr [[], []]
                | Some ts \<Rightarrow>
                    if length ts > 2 then Inl (ValueError (IdxCountMsg (length ts)))
                    else (case check_idx x ts of Some e \<Rightarrow> Inl e | None \<Rightarrow> Inr ts)) of
            Inl e \<Rightarrow> (Inl e, [])
          | Inr ts \<Rightarrow>
             (case ts of
                [i, j] \<Rightarrow>
                  if i = j then fd2_diagonal f argnum delta args kwargs x i
                  else fd2_off_diagonal f argnum delta args kwargs x i j
              | _ \<Rightarrow> (Inl (ValueError (UnpackMsg 2 (length ts))), []))))"

subsection \<open>\<^verbatim>\<open>finite_diff\<close>\<close>

text \<open>The argument \<open>x\<close> of \<^verbatim>\<open>finite_diff\<close>: an instance of \<^verbatim>\<open>ndarray\<close> or a plain number.
  \<open>F\<close> is a function, so the \<^verbatim>\<open>callable(F)\<close> test always passes.\<close>

datatype pyvalue = Scalar real | NdArray "real ndarray"

definition finite_diff ::
  "(pyvalue \<Rightarrow> 'r::real_vector) \<Rightarrow> pyvalue \<Rightarrow> int option \<Rightarrow> real \<Rightarrow> (error + 'r) \<times> pyvalue list" where
  "finite_diff F x i delta =
     (case (case x of
              NdArray a \<Rightarrow>
                (case i of
                   None \<Rightarrow> Inl (ValueError (RangeMsg 0 (int (np_size a) - 1) None))
                 | Some k \<Rightarrow>
                     if \<not> (0 \<le> k \<and> k < int (np_size a))
                       then Inl (ValueError (RangeMsg 0 (int (np_size a) - 1) (Some k)))
                     else (case np_setitem (zeros_like a) [k] (0.5 * delta) of
                             Inl e \<Rightarrow> Inl e
                           | Inr d \<Rightarrow> Inr (NdArray (np_add a d), NdArray (np_sub a d))))
            | Scalar v \<Rightarrow> Inr (Scalar (v + delta * 0.5), Scalar (v - delta * 0.5))) of
        Inl e \<Rightarrow> (Inl e, [])
      | Inr (p, m) \<Rightarrow>
          (case py_pow delta (- 1) of
             Inl e \<Rightarrow> Inl e
           | Inr r \<Rightarrow> Inr (scaleR r (F p - F m)),
           [p, m]))"

section \<open>Vocabulary of the properties\<close>

text \<open>A tuple is within the bounds of a shape when it has one component per axis and
  each component \<open>c\<close> of an axis of size \<open>n\<close> satisfies \<open>-n \<le> c < n\<close>, the range in which
  NumPy indexing succeeds. This is more than the validation of \<^verbatim>\<open>idx\<close> asks, which has
  no lower bound. A multi-index of a shape has \<open>0 \<le> c < n\<close> on every axis.\<close>

definition in_bounds :: "nat list \<Rightarrow> int list \<Rightarrow> bool" where
  "in_bounds sh t = list_all2 (\<lambda>c n. - int n \<le> c \<and> c < int n) t sh"

definition multi_index :: "nat list \<Rightarrow> int list \<Rightarrow> bool" where
  "multi_index sh t = list_all2 (\<lambda>c n. 0 \<le> c \<and> c < int n) t sh"

text \<open>The row-major position of the element a full index addresses.\<close>

fun flat_pos :: "nat list \<Rightarrow> int list \<Rightarrow> nat" where
  "flat_pos (n # sh) (c # cs) =
     nat (if c < 0 then c + int n else c) * prod_list sh + flat_pos sh cs"
| "flat_pos sh cs = 0"

text \<open>The float array shaped like \<open>x\<close> that is zero everywhere except \<open>h\<close> at the index
  \<open>t\<close>.\<close>

definition one_hot :: "'a ndarray \<Rightarrow> int list \<Rightarrow> real \<Rightarrow> real ndarray" where
  "one_hot x t h =
     \<lparr>shape = shape x, dtype = Float64,
      data = (replicate (np_size x) 0)[flat_pos (shape x) t := h]\<rparr>"

text \<open>The array \<^verbatim>\<open>zeros_like(x)\<close> after \<open>h\<close> has been stored at the flat position \<open>p\<close>: it has
  the element type of \<open>x\<close>, so that \<open>h\<close> is truncated when \<open>x\<close> holds integers.\<close>

definition shift_at :: "'a ndarray \<Rightarrow> nat \<Rightarrow> real \<Rightarrow> real ndarray" where
  "shift_at x p h =
     \<lparr>shape = shape x, dtype = dtype x,
      data = (replicate (np_size x) 0)[p := astype (dtype x) h]\<rparr>"


text \<open>A tuple the validation has to reject: its length is not the number of axes, or
  a component exceeds the size of its axis minus one.\<close>

definition bad_tuple :: "'a ndarray \<Rightarrow> int list \<Rightarrow> bool" where
  "bad_tuple x t \<longleftrightarrow>
     length t \<noteq> ndim x \<or> list_ex (\<lambda>(c, n). c > int n - 1) (zip t (shape x))"

text \<open>The indices a call of the first-order operator works on, and a supplied \<^verbatim>\<open>idx\<close>
  all of whose tuples are within the bounds of \<open>x\<close>.\<close>

definition requested :: "'a ndarray \<Rightarrow> int list list option \<Rightarrow> int list list" where
  "requested x idx = (case idx of None \<Rightarrow> ndindex (shape x) | Some ts \<Rightarrow> ts)"

definition idx_in_bounds :: "'a ndarray \<Rightarrow> int list list option \<Rightarrow> bool" where
  "idx_in_bounds x idx =
     (case idx of None \<Rightarrow> True | Some ts \<Rightarrow> list_all (in_bounds (shape x)) ts)"

text \<open>The power \<^verbatim>\<open>d ** n\<close> is within the range of a double.\<close>

definition pow_in_range :: "real \<Rightarrow> int \<Rightarrow> bool" where
  "pow_in_range d n \<longleftrightarrow> abs (d powi n) \<le> float_max"

text \<open>A linear function of the argument at position \<open>n\<close>: the sum of the products of
  its elements with the coefficients \<open>A\<close>.\<close>

definition np_dot :: "real ndarray \<Rightarrow> real ndarray \<Rightarrow> real" where
  "np_dot A y = sum_list (map2 (*) (data A) (data y))"

definition linear_form :: "real ndarray \<Rightarrow> nat \<Rightarrow> real ndarray list \<Rightarrow> 'k \<Rightarrow> real" where
  "linear_form A n args kwargs = np_dot A (args ! n)"

text \<open>Values for concrete runs: a Python float and a Python integer as positional
  arguments, a one-dimensional array, and two user functions, the sum of the elements
  of the argument and the square of the sum of all elements of all positional
  arguments.\<close>

definition np_float :: "real \<Rightarrow> real ndarray" where
  "np_float v = \<lparr>shape = [], dtype = Float64, data = [v]\<rparr>"

definition np_int :: "int \<Rightarrow> real ndarray" where
  "np_int k = \<lparr>shape = [], dtype = Int64, data = [of_int k]\<rparr>"

definition np_vector :: "dtype \<Rightarrow> real list \<Rightarrow> real ndarray" where
  "np_vector dt xs = \<lparr>shape = [length xs], dtype = dt, data = xs\<rparr>"

definition sum_elems :: "pyvalue \<Rightarrow> real" where
  "sum_elems v = (case v of Scalar r \<Rightarrow> r | NdArray a \<Rightarrow> sum_list (data a))"

definition sq_sum :: "real ndarray list \<Rightarrow> unit \<Rightarrow> real" where
  "sq_sum args kwargs = (sum_list (concat (map data args))) ^ 2"

text \<open>The two calls of \<open>f\<close> the first-order loop makes for the element at flat position
  \<open>p\<close>, and their difference.\<close>

definition fd1_calls ::
  "real ndarray list \<Rightarrow> int \<Rightarrow> real \<Rightarrow> 'k \<Rightarrow> real ndarray \<Rightarrow> nat \<Rightarrow> (real ndarray list \<times> 'k) list" where
  "fd1_calls args argnum delta kwargs x p =
     [(call_args args argnum (np_add x (shift_at x p (0.5 * delta))), kwargs),
      (call_args args argnum (np_sub x (shift_at x p (0.5 * delta))), kwargs)]"

definition fd1_diff ::
  "(real ndarray list \<Rightarrow> 'k \<Rightarrow> 'r::real_vector) \<Rightarrow> int \<Rightarrow> real \<Rightarrow> real ndarray list \<Rightarrow> 'k \<Rightarrow>
   real ndarray \<Rightarrow> nat \<Rightarrow> 'r" where
  "fd1_diff f argnum delta args kwargs x p =
     f (call_args args argnum (np_add x (shift_at x p (0.5 * delta)))) kwargs
     - f (call_args args argnum (np_sub x (shift_at x p (0.5 * delta)))) kwargs"

text \<open>The calls and the combination of their values in the two branches of the
  second-order operator, for the elements at the flat positions \<open>p\<close> and \<open>q\<close>.\<close>

definition diag_calls ::
  "real ndarray list \<Rightarrow> int \<Rightarrow> real \<Rightarrow> 'k \<Rightarrow> real ndarray \<Rightarrow> nat \<Rightarrow> (real ndarray list \<times> 'k) list" where
  "diag_calls args argnum delta kwargs x p =
     [(call_args args argnum (np_add x (shift_at x p delta)), kwargs),
      (call_args args argnum x, kwargs),
      (call_args args argnum (np_sub x (shift_at x p delta)), kwargs)]"

definition diag_sum ::
  "(real ndarray list \<Rightarrow> 'k \<Rightarrow> 'r::real_vector) \<Rightarrow> int \<Rightarrow> real \<Rightarrow> real ndarray list \<Rightarrow> 'k \<Rightarrow>
   real ndarray \<Rightarrow> nat \<Rightarrow> 'r" where
  "diag_sum f argnum delta args kwargs x p =
     f (call_args args argnum (np_add x (shift_at x p delta))) kwargs
     - scaleR 2 (f (call_args args argnum x) kwargs)
     + f (call_args args argnum (np_sub x (shift_at x p delta))) kwargs"

definition cross_calls ::
  "real ndarray list \<Rightarrow> int \<Rightarrow> real \<Rightarrow> 'k \<Rightarrow> real ndarray \<Rightarrow> nat \<Rightarrow> nat \<Rightarrow>
   (real ndarray list \<times> 'k) list" where
  "cross_calls args argnum delta kwargs x p q =
     [(call_args args argnum
         (np_add (np_add x (shift_at x p (0.5 * delta))) (shift_at x q (0.5 * delta))), kwargs),
      (call_args args argnum
         (np_add (np_sub x (shift_at x p (0.5 * delta))) (shift_at x q (0.5 * delta))), kwargs),
      (call_args args argnum
         (np_sub (np_add x (shift_at x p (0.5 * delta))) (shift_at x q (0.5 * delta))), kwargs),
      (call_args args argnum
         (np_sub (np_sub x (shift_at x p (0.5 * delta))) (shift_at x q (0.5 * delta))), kwargs)]"

definition cross_sum ::
  "(real ndarray list \<Rightarrow> 'k \<Rightarrow> 'r::real_vector) \<Rightarrow> int \<Rightarrow> real \<Rightarrow> real ndarray list \<Rightarrow> 'k \<Rightarrow>
   real ndarray \<Rightarrow> nat \<Rightarrow> nat \<Rightarrow> 'r" where
  "cross_sum f argnum delta args kwargs x p q =
     f (call_args args argnum
          (np_add (np_add x (shift_at x p (0.5 * delta))) (shift_at x q (0.5 * delta)))) kwargs
     - f (call_args args argnum
          (np_add (np_sub x (shift_at x p (0.5 * delta))) (shift_at x q (0.5 * delta)))) kwargs
     - f (call_args args argnum
          (np_sub (np_add x (shift_at x p (0.5 * delta))) (shift_at x q (0.5 * delta)))) kwargs
     + f (call_args args argnum
          (np_sub (np_sub x (shift_at x p (0.5 * delta))) (shift_at x q (0.5 * delta)))) kwargs"

text \<open>The definitions a concrete run unfolds.\<close>

lemmas model_defs =
  fd_first_order_centered_def fd_second_order_centered_def fd2_diagonal_def
  fd2_off_diagonal_def finite_diff_def py_getitem_def zeros_like_def zeros_like_obj_def
  np_size_def np_modify_def np_iadd_def np_setitem_def astype_def promote_def
  slice_update_def call_args_def py_slice_to_def py_slice_from_def np_add_def np_sub_def
  ndim_def bounds_of_def axis_index_def py_pow_def float_max_def
  np_float_def np_int_def np_vector_def

section \<open>Validation of the step size\<close>

text \<open>
  C1 (as amended). For every \<open>delta \<le> 0\<close>, \<^verbatim>\<open>_fd_first_order_centered\<close> and
  \<^verbatim>\<open>_fd_second_order_centered\<close> fail with a value error and the user function is
  never evaluated: the trace of calls is empty. (\<^verbatim>\<open>finite_diff\<close> does not validate
  \<open>delta\<close>.)
\<close>

theorem fd_delta_validated:
  "delta \<le> 0 \<Longrightarrow>
     (\<exists>m. fd_first_order_centered f argnum delta args idx kwargs = (Inl (ValueError m), [])) \<and>
     (\<exists>m. fd_second_order_centered f argnum delta args idx kwargs = (Inl (ValueError m), []))"
  by (simp add: fd_first_order_centered_def fd_second_order_centered_def)

theorem fd_delta_validated_witness:
  "(- 1 :: real) \<le> 0 \<and>
   fd_first_order_centered sq_sum 0 (- 1) [np_float 1] None ()
     = (Inl (ValueError (DeltaMsg (- 1))), []) \<and>
   fd_second_order_centered sq_sum 0 (- 1) [np_float 1] None ()
     = (Inl (ValueError (DeltaMsg (- 1))), [])"
  using fd_delta_validated [of "- 1" sq_sum 0 "[np_float 1]" None "()"]
  by (simp add: fd_first_order_centered_def fd_second_order_centered_def)

text \<open>
  With \<open>delta = -1\<close> a call of \<^verbatim>\<open>finite_diff\<close> on the scalar \<open>0\<close> raises nothing: it
  evaluates \<open>F\<close> at \<open>-1/2\<close> and at \<open>1/2\<close> and returns a quotient.
\<close>

theorem finite_diff_negative_delta_counterexample:
  "finite_diff sum_elems (Scalar 0) None (- 1) = (Inr 1, [Scalar (- (1 / 2)), Scalar (1 / 2)])"
  by (simp add: finite_diff_def sum_elems_def py_pow_def float_max_def)

section \<open>Validation of the argument number\<close>

text \<open>
  C2. Both operators are to reject every \<^verbatim>\<open>argnum\<close> outside \<open>0 \<le> argnum \<le> len(args) - 1\<close>
  with a value error, before \<open>f\<close> is evaluated; the message reads ``has to be between 0
  and \<open>len(args) - 1\<close>''. The test \<^verbatim>\<open>argnum > len(args) - 1\<close> has no lower bound, though. With
  \<open>argnum = -2\<close> and the two positional arguments \<open>1.0\<close> and \<open>3.0\<close>, both operators index
  the tuple from the end, evaluate the user function and return a derivative with
  respect to the first argument; no error is raised.
\<close>

theorem fd_negative_argnum_evaluates:
  "fd_first_order_centered sq_sum (- 2) 1 [np_float 1, np_float 3] None ()
     = (Inr \<lparr>shape = [], dtype = Object, data = [Value 8]\<rparr>,
        [([np_float (3 / 2), np_float 3], ()),
         ([np_float (1 / 2), np_float 3], ())]) \<and>
   fd_second_order_centered sq_sum (- 2) 1 [np_float 1, np_float 3] None ()
     = (Inr 2,
        [([np_float 2, np_float 3], ()),
         ([np_float 1, np_float 3], ()),
         ([np_float 0, np_float 3], ())])"
  by (simp add: model_defs sq_sum_def power2_eq_square)

text \<open>Above the range the test does fire, with the bound and the offending value in
  the error, and \<open>f\<close> is not evaluated.\<close>

lemma fd_argnum_above_range:
  "int (length args) - 1 < argnum \<Longrightarrow>
     fd_first_order_centered f argnum delta args idx kwargs
       = (Inl (ValueError (ArgnumMsg (int (length args) - 1) argnum)), []) \<and>
     fd_second_order_centered f argnum delta args idx kwargs
       = (Inl (ValueError (ArgnumMsg (int (length args) - 1) argnum)), [])"
  by (simp add: fd_first_order_centered_def fd_second_order_centered_def)

section \<open>A single index tuple given to the second-order operator\<close>

text \<open>
  C10. When \<^verbatim>\<open>idx\<close> holds a single tuple that passes the validation (with a target
  argument that exists and \<open>delta > 0\<close>), \<^verbatim>\<open>_fd_second_order_centered\<close> passes the
  test \<^verbatim>\<open>len(idx) > 2\<close> and the loop over the tuples, and fails at \<^verbatim>\<open>i, j = idx\<close>: the
  error is that of unpacking two values from one, not one of the documented length,
  bounds or count errors; no derivative is returned and \<open>f\<close> is never evaluated.
\<close>

theorem fd2_single_tuple_unpack_error:
  assumes "py_getitem args argnum = Inr x"
    and "0 < delta"
    and "check_idx x [t] = None"
  shows "fd_second_order_centered f argnum delta args (Some [t]) kwargs
           = (Inl (ValueError (UnpackMsg 2 1)), [])"
proof -
  have "argnum \<le> int (length args) - 1"
    using assms(1) by (auto simp: py_getitem_def Let_def split: if_splits)
  then show ?thesis using assms by (simp add: fd_second_order_centered_def)
qed

theorem fd2_single_tuple_unpack_error_witness:
  "py_getitem [np_vector Float64 [1, 2, 3]] 0 = Inr (np_vector Float64 [1, 2, 3]) \<and>
   (0::real) < 1 \<and>
   check_idx (np_vector Float64 [1, 2, 3]) [[0]] = None \<and>
   fd_second_order_centered sq_sum 0 1 [np_vector Float64 [1, 2, 3]] (Some [[0]]) ()
     = (Inl (ValueError (UnpackMsg 2 1)), [])"
  using fd2_single_tuple_unpack_error
    [of "[np_vector Float64 [1, 2, 3]]" 0 "np_vector Float64 [1, 2, 3]" 1 "[0]" sq_sum "()"]
  by (simp add: py_getitem_def ndim_def bounds_of_def np_vector_def)

section \<open>Indexing lemmas\<close>

lemma in_bounds_Nil [simp]: "in_bounds [] t \<longleftrightarrow> t = []" "in_bounds sh [] \<longleftrightarrow> sh = []"
  by (auto simp: in_bounds_def)

lemma in_bounds_Cons [simp]:
  "in_bounds (n # sh) (c # cs) \<longleftrightarrow> - int n \<le> c \<and> c < int n \<and> in_bounds sh cs"
  by (simp add: in_bounds_def)

lemma in_bounds_length: "in_bounds sh t \<Longrightarrow> length t = length sh"
  by (simp add: in_bounds_def list_all2_lengthD)

lemma multi_index_in_bounds: "multi_index sh t \<Longrightarrow> in_bounds sh t"
  unfolding multi_index_def in_bounds_def
  by (induction t sh rule: list_all2_induct) auto

lemma axis_index_in: "- int n \<le> c \<Longrightarrow> c < int n \<Longrightarrow>
   axis_index n c = Inr (nat (if c < 0 then c + int n else c))"
  by (auto simp: axis_index_def Let_def)

lemma pos_bound:
  fixes k n P lo :: nat
  assumes "k < n" "lo < P" shows "k * P + lo < n * P"
proof -
  have "k * P + lo < k * P + P" using assms by simp
  also have "\<dots> = (Suc k) * P" by simp
  also have "\<dots> \<le> n * P" using assms(1) by (intro mult_le_mono1) simp
  finally show ?thesis .
qed

lemma locate_in_bounds:
  "in_bounds sh t \<Longrightarrow> locate sh t = Inr (flat_pos sh t, 1) \<and> flat_pos sh t < prod_list sh"
proof (induction sh t rule: locate.induct)
  case (1 sh)
  then show ?case by simp
next
  case (2 c cs)
  then show ?case by simp
next
  case (3 n sh c cs)
  then have b: "- int n \<le> c" "c < int n" and r: "in_bounds sh cs" by simp_all
  from "3.IH"[OF axis_index_in[OF b] r]
  have ih: "locate sh cs = Inr (flat_pos sh cs, 1)" "flat_pos sh cs < prod_list sh"
    by simp_all
  have k: "nat (if c < 0 then c + int n else c) < n" using b by auto
  show ?case using axis_index_in[OF b] ih pos_bound[OF k ih(2)] by simp
qed

lemma slice_update_one:
  "lo < length xs \<Longrightarrow> slice_update lo (Suc 0) g xs = xs[lo := g (xs ! lo)]"
  by (simp add: slice_update_def upd_conv_take_nth_drop take_Suc_conv_app_nth
      Cons_nth_drop_Suc[symmetric])

lemma np_iadd_zeros:
  assumes "in_bounds (shape x) t"
  shows "np_iadd (zeros_like x) t h = Inr (shift_at x (flat_pos (shape x) t) h)"
proof -
  from locate_in_bounds[OF assms] have l: "locate (shape x) t = Inr (flat_pos (shape x) t, 1)"
    and p: "flat_pos (shape x) t < prod_list (shape x)" by simp_all
  show ?thesis
    using l p
    by (simp add: np_iadd_def np_modify_def zeros_like_def shift_at_def np_size_def
        slice_update_one)
qed

lemma np_setitem_zeros:
  assumes "in_bounds (shape x) t"
  shows "np_setitem (zeros_like x) t h = Inr (shift_at x (flat_pos (shape x) t) h)"
proof -
  from locate_in_bounds[OF assms] have l: "locate (shape x) t = Inr (flat_pos (shape x) t, 1)"
    and p: "flat_pos (shape x) t < prod_list (shape x)" by simp_all
  show ?thesis
    using l p
    by (simp add: np_setitem_def np_modify_def zeros_like_def shift_at_def np_size_def
        slice_update_one)
qed

lemma shift_at_float:
  "dtype x = Float64 \<Longrightarrow> shift_at x (flat_pos (shape x) t) h = one_hot x t h"
  by (simp add: shift_at_def one_hot_def astype_def)

lemma np_modify_set:
  assumes "in_bounds (shape g) t" "length (data g) = prod_list (shape g)"
  shows "np_modify g t (\<lambda>_. v) = Inr (g\<lparr>data := (data g)[flat_pos (shape g) t := v]\<rparr>)"
proof -
  from locate_in_bounds[OF assms(1)] have l: "locate (shape g) t = Inr (flat_pos (shape g) t, 1)"
    and p: "flat_pos (shape g) t < prod_list (shape g)" by simp_all
  show ?thesis
    using l p assms(2) by (simp add: np_modify_def slice_update_one)
qed

lemma py_getitem_valid: "0 \<le> n \<Longrightarrow> n < int (length xs) \<Longrightarrow> py_getitem xs n = Inr (xs ! nat n)"
  by (simp add: py_getitem_def)

lemma call_args_valid: "0 \<le> n \<Longrightarrow> n < int (length xs) \<Longrightarrow> call_args xs n y = xs[nat n := y]"
  by (simp add: call_args_def py_slice_to_def py_slice_from_def upd_conv_take_nth_drop
      nat_add_distrib)

lemma py_pow_in_range: "d \<noteq> 0 \<Longrightarrow> pow_in_range d n \<Longrightarrow> py_pow d n = Inr (d powi n)"
  by (simp add: py_pow_def pow_in_range_def)

subsection \<open>The list of all multi-indices\<close>

lemma ndindex_in_bounds: "t \<in> set (ndindex sh) \<Longrightarrow> in_bounds sh t"
  by (induction sh arbitrary: t) auto

lemma ndindex_multi_index: "t \<in> set (ndindex sh) \<longleftrightarrow> multi_index sh t"
proof (induction sh arbitrary: t)
  case Nil
  then show ?case by (auto simp: multi_index_def)
next
  case (Cons n sh)
  show ?case
  proof
    assume "t \<in> set (ndindex (n # sh))"
    then obtain k r where "k < n" "r \<in> set (ndindex sh)" "t = int k # r" by auto
    with Cons show "multi_index (n # sh) t" by (simp add: multi_index_def)
  next
    assume m: "multi_index (n # sh) t"
    then obtain c r where t: "t = c # r" and c: "0 \<le> c" "c < int n" and r: "multi_index sh r"
      by (cases t) (auto simp: multi_index_def)
    from c have "nat c < n" "int (nat c) = c" by simp_all
    with r Cons t show "t \<in> set (ndindex (n # sh))" by force
  qed
qed

lemma ndindex_length: "length (ndindex sh) = prod_list sh"
proof (induction sh)
  case Nil
  then show ?case by simp
next
  case (Cons n sh)
  have "length (ndindex (n # sh)) = sum_list (map (\<lambda>k. length (ndindex sh)) [0..<n])"
    by (simp add: length_concat comp_def)
  also have "\<dots> = n * prod_list sh"
    by (simp add: Cons sum_list_triv)
  finally show ?case by simp
qed

lemma ndindex_example: "ndindex [2, 3] = [[0, 0], [0, 1], [0, 2], [1, 0], [1, 1], [1, 2]]"
  by (simp add: numeral_2_eq_2 numeral_3_eq_3 upt_rec)

subsection \<open>Validation\<close>

lemma in_bounds_not_above:
  "in_bounds sh t \<Longrightarrow> \<not> list_ex (\<lambda>(c, b). c > b) (zip t (map (\<lambda>n. int n - 1) sh))"
  unfolding in_bounds_def by (induction t sh rule: list_all2_induct) auto

lemma check_idx_in_bounds: "list_all (in_bounds (shape x)) ts \<Longrightarrow> check_idx x ts = None"
  by (induction ts) (simp_all add: ndim_def bounds_of_def in_bounds_length in_bounds_not_above)

lemma list_ex_zip_map2:
  "list_ex P (zip t (map f sh)) = list_ex (\<lambda>(c, n). P (c, f n)) (zip t sh)"
  by (induction t sh rule: list_induct2') auto

lemma bad_tuple_check:
  "bad_tuple x t \<longleftrightarrow>
     length t \<noteq> ndim x \<or> list_ex (\<lambda>(c, b). c > b) (zip t (bounds_of x))"
  by (simp add: bad_tuple_def bounds_of_def list_ex_zip_map2)

lemma check_idx_bad:
  "list_ex (bad_tuple x) ts \<Longrightarrow> \<exists>m. check_idx x ts = Some (ValueError m)"
  by (induction ts) (auto simp: bad_tuple_check)

lemma np_item_in_bounds:
  assumes "in_bounds (shape g) t"
  shows "np_item g t = Inr (data g ! flat_pos (shape g) t)"
  using locate_in_bounds[OF assms] in_bounds_length[OF assms] by (simp add: np_item_def ndim_def)

lemma requested_in_bounds:
  "idx_in_bounds x idx \<Longrightarrow> list_all (in_bounds (shape x)) (requested x idx)"
  by (cases idx) (auto simp: idx_in_bounds_def requested_def list_all_iff ndindex_in_bounds)


subsection \<open>Sums and differences of arrays\<close>

lemma map2_exchange:
  assumes "\<And>u v w. f (g u v) w = g' (f' u w) v"
  shows "map2 f (map2 g xs as) bs = map2 g' (map2 f' xs bs) as"
proof (induction xs arbitrary: as bs)
  case Nil
  then show ?case by simp
next
  case (Cons y ys)
  show ?case
  proof (cases as)
    case Nil
    then show ?thesis by simp
  next
    case A: (Cons a as')
    show ?thesis
    proof (cases bs)
      case Nil
      then show ?thesis by simp
    next
      case (Cons b bs')
      with A show ?thesis by (simp add: assms Cons.IH)
    qed
  qed
qed

lemma promote_exchange: "promote (promote a b) c = promote (promote a c) b"
  by (cases a; cases b; cases c) (simp_all add: promote_def)

lemma np_add_add_exchange: "np_add (np_add x a) b = np_add (np_add x b) a"
  by (simp add: np_add_def promote_exchange map2_exchange[of "(+)" "(+)" "(+)" "(+)"])

lemma np_add_sub_exchange: "np_add (np_sub x a) b = np_sub (np_add x b) a"
  by (simp add: np_add_def np_sub_def promote_exchange map2_exchange[of "(+)" "(-)" "(-)" "(+)"])

lemma np_sub_add_exchange: "np_sub (np_add x a) b = np_add (np_sub x b) a"
  by (simp add: np_add_def np_sub_def promote_exchange map2_exchange[of "(-)" "(+)" "(+)" "(-)"])

lemma np_sub_sub_exchange: "np_sub (np_sub x a) b = np_sub (np_sub x b) a"
  by (simp add: np_sub_def promote_exchange map2_exchange[of "(-)" "(-)" "(-)" "(-)"])

lemma cross_sum_exchange:
  "cross_sum f argnum delta args kwargs x q p = cross_sum f argnum delta args kwargs x p q"
proof -
  let ?a = "shift_at x p (0.5 * delta)" and ?b = "shift_at x q (0.5 * delta)"
  have e1: "np_add (np_add x ?b) ?a = np_add (np_add x ?a) ?b" by (rule np_add_add_exchange)
  have e2: "np_add (np_sub x ?b) ?a = np_sub (np_add x ?a) ?b" by (rule np_add_sub_exchange)
  have e3: "np_sub (np_add x ?b) ?a = np_add (np_sub x ?a) ?b" by (rule np_sub_add_exchange)
  have e4: "np_sub (np_sub x ?b) ?a = np_sub (np_sub x ?a) ?b" by (rule np_sub_sub_exchange)
  show ?thesis unfolding cross_sum_def e1 e2 e3 e4 by simp
qed

section \<open>The first-order loop\<close>

lemma fd1_loop_run:
  assumes "list_all (in_bounds (shape x)) ts"
    and "shape g = shape x"
    and "length (data g) = prod_list (shape x)"
    and "py_pow delta (- 1) = Inr r"
  shows "\<exists>g'. fd1_loop f argnum delta args kwargs x ts g tr
            = (Inr g', tr @ concat (map (\<lambda>t. fd1_calls args argnum delta kwargs x
                                               (flat_pos (shape x) t)) ts))
          \<and> shape g' = shape x \<and> dtype g' = dtype g
          \<and> length (data g') = prod_list (shape x)
          \<and> (\<forall>p < prod_list (shape x). data g' ! p =
                (if p \<in> flat_pos (shape x) ` set ts
                 then Value (scaleR r (fd1_diff f argnum delta args kwargs x p))
                 else data g ! p))"
  using assms(1-3)
proof (induction ts arbitrary: g tr)
  case Nil
  then show ?case by simp
next
  case (Cons t ts)
  let ?p = "flat_pos (shape x) t"
  let ?v = "scaleR r (fd1_diff f argnum delta args kwargs x ?p)"
  let ?g1 = "g\<lparr>data := (data g)[?p := Value ?v]\<rparr>"
  let ?tr1 = "tr @ fd1_calls args argnum delta kwargs x ?p"
  from Cons.prems have b: "in_bounds (shape x) t" and r: "list_all (in_bounds (shape x)) ts"
    by simp_all
  have m1: "np_iadd (zeros_like x) t (0.5 * delta) = Inr (shift_at x ?p (0.5 * delta))"
    using b by (rule np_iadd_zeros)
  have m2: "np_modify g t (\<lambda>_. Value ?v) = Inr ?g1"
    using np_modify_set[of g t "Value ?v"] b Cons.prems(2,3) by simp
  have step: "fd1_loop f argnum delta args kwargs x (t # ts) g tr
                = fd1_loop f argnum delta args kwargs x ts ?g1 ?tr1"
    unfolding fd1_loop.simps m1 sum.case Let_def fd1_calls_def assms(4)
    using m2 by (simp add: fd1_diff_def)
  have s1: "shape ?g1 = shape x" and l1: "length (data ?g1) = prod_list (shape x)"
    using Cons.prems(2,3) by simp_all
  from Cons.IH[OF r s1 l1, of ?tr1] obtain g' where
    run: "fd1_loop f argnum delta args kwargs x ts ?g1 ?tr1
            = (Inr g', ?tr1 @ concat (map (\<lambda>t. fd1_calls args argnum delta kwargs x
                                                 (flat_pos (shape x) t)) ts))"
    and sh: "shape g' = shape x" and dt: "dtype g' = dtype ?g1"
    and ln: "length (data g') = prod_list (shape x)"
    and el: "\<forall>p < prod_list (shape x). data g' ! p =
                (if p \<in> flat_pos (shape x) ` set ts
                 then Value (scaleR r (fd1_diff f argnum delta args kwargs x p))
                 else data ?g1 ! p)"
    by blast
  have el': "\<forall>p < prod_list (shape x). data g' ! p =
                (if p \<in> flat_pos (shape x) ` set (t # ts)
                 then Value (scaleR r (fd1_diff f argnum delta args kwargs x p))
                 else data g ! p)"
  proof (intro allI impI)
    fix p assume p: "p < prod_list (shape x)"
    show "data g' ! p = (if p \<in> flat_pos (shape x) ` set (t # ts)
                 then Value (scaleR r (fd1_diff f argnum delta args kwargs x p))
                 else data g ! p)"
      using el p Cons.prems(3) by (cases "p = ?p") auto
  qed
  show ?case using step run sh dt ln el' by simp
qed

lemma fd1_unfold:
  assumes "0 \<le> argnum" "argnum < int (length args)" "0 < delta"
    and "idx_in_bounds (args ! nat argnum) idx"
  shows "fd_first_order_centered f argnum delta args idx kwargs
     = fd1_loop f argnum delta args kwargs (args ! nat argnum)
         (requested (args ! nat argnum) idx) (zeros_like_obj (args ! nat argnum)) []"
proof (cases idx)
  case None
  then show ?thesis using assms
    by (simp add: fd_first_order_centered_def py_getitem_valid requested_def)
next
  case (Some ts)
  then have "check_idx (args ! nat argnum) ts = None"
    using assms(4) by (simp add: idx_in_bounds_def check_idx_in_bounds)
  then show ?thesis using assms Some
    by (simp add: fd_first_order_centered_def py_getitem_valid requested_def)
qed

lemma fd1_result:
  fixes f :: "real ndarray list \<Rightarrow> 'k \<Rightarrow> 'r::real_vector"
  assumes "0 \<le> argnum" "argnum < int (length args)" "0 < delta" "pow_in_range delta (- 1)"
    and "x = args ! nat argnum"
    and "idx_in_bounds x idx"
  shows "\<exists>g. fd_first_order_centered f argnum delta args idx kwargs
            = (Inr g, concat (map (\<lambda>t. fd1_calls args argnum delta kwargs x
                                          (flat_pos (shape x) t)) (requested x idx)))
          \<and> shape g = shape x \<and> dtype g = Object \<and> length (data g) = prod_list (shape x)
          \<and> (\<forall>t. in_bounds (shape x) t \<longrightarrow> np_item g t =
                Inr (if flat_pos (shape x) t \<in> flat_pos (shape x) ` set (requested x idx)
                     then Value (fd1_diff f argnum delta args kwargs x (flat_pos (shape x) t)
                                 /\<^sub>R delta)
                     else Zero))"
proof -
  let ?ts = "requested x idx"
  have v: "list_all (in_bounds (shape x)) ?ts" using assms(6) by (rule requested_in_bounds)
  have z: "shape (zeros_like_obj x :: 'r slot ndarray) = shape x"
    "length (data (zeros_like_obj x :: 'r slot ndarray)) = prod_list (shape x)"
    by (simp_all add: zeros_like_obj_def np_size_def)
  have pw: "py_pow delta (- 1) = Inr (inverse delta)"
    using py_pow_in_range[of delta "- 1"] assms(3,4) by simp
  from fd1_loop_run[OF v z pw, of f argnum args kwargs "[]"] obtain g where
    run: "fd1_loop f argnum delta args kwargs x ?ts (zeros_like_obj x) []
            = (Inr g, concat (map (\<lambda>t. fd1_calls args argnum delta kwargs x
                                          (flat_pos (shape x) t)) ?ts))"
    and sh: "shape g = shape x" and dt: "dtype g = dtype (zeros_like_obj x :: 'r slot ndarray)"
    and ln: "length (data g) = prod_list (shape x)"
    and el: "\<forall>p < prod_list (shape x). data g ! p =
                (if p \<in> flat_pos (shape x) ` set ?ts
                 then Value (fd1_diff f argnum delta args kwargs x p /\<^sub>R delta)
                 else data (zeros_like_obj x :: 'r slot ndarray) ! p)"
    by auto
  have it: "np_item g t =
              Inr (if flat_pos (shape x) t \<in> flat_pos (shape x) ` set ?ts
                   then Value (fd1_diff f argnum delta args kwargs x (flat_pos (shape x) t)
                               /\<^sub>R delta)
                   else Zero)"
    if b: "in_bounds (shape x) t" for t
  proof -
    from b have p: "flat_pos (shape x) t < prod_list (shape x)" using locate_in_bounds by blast
    have "data g ! flat_pos (shape x) t =
            (if flat_pos (shape x) t \<in> flat_pos (shape x) ` set ?ts
             then Value (fd1_diff f argnum delta args kwargs x (flat_pos (shape x) t) /\<^sub>R delta)
             else Zero)"
      using el p by (simp add: zeros_like_obj_def np_size_def)
    then show ?thesis using np_item_in_bounds[of g t] b sh by simp
  qed
  have "dtype g = Object" using dt by (simp add: zeros_like_obj_def)
  then show ?thesis
    using fd1_unfold[of argnum args delta idx f kwargs] assms run sh ln it by auto
qed

lemma fd1_calls_valid:
  assumes "0 \<le> argnum" "argnum < int (length args)" "dtype x = Float64"
  shows "fd1_calls args argnum delta kwargs x (flat_pos (shape x) t)
    = [(args[nat argnum := np_add x (one_hot x t (delta / 2))], kwargs),
       (args[nat argnum := np_sub x (one_hot x t (delta / 2))], kwargs)]"
  using assms shift_at_float[of x t "0.5 * delta"]
  by (simp add: fd1_calls_def call_args_valid)

lemma fd1_diff_valid:
  assumes "0 \<le> argnum" "argnum < int (length args)" "dtype x = Float64"
  shows "fd1_diff f argnum delta args kwargs x (flat_pos (shape x) t)
    = f (args[nat argnum := np_add x (one_hot x t (delta / 2))]) kwargs
      - f (args[nat argnum := np_sub x (one_hot x t (delta / 2))]) kwargs"
  using assms shift_at_float[of x t "0.5 * delta"]
  by (simp add: fd1_diff_def call_args_valid)


section \<open>The second-order stencils\<close>

lemma fd2_result:
  fixes f :: "real ndarray list \<Rightarrow> 'k \<Rightarrow> 'r::real_vector"
  assumes "0 \<le> argnum" and "argnum < int (length args)" and "0 < delta"
    and "x = args ! nat argnum"
    and "in_bounds (shape x) i" and "in_bounds (shape x) j"
  shows "fd_second_order_centered f argnum delta args (Some [i, j]) kwargs =
    (if i = j then
       (case py_pow delta (- 2) of
          Inl e \<Rightarrow> Inl e
        | Inr r \<Rightarrow> Inr (scaleR r (diag_sum f argnum delta args kwargs x (flat_pos (shape x) i))),
        diag_calls args argnum delta kwargs x (flat_pos (shape x) i))
     else
       (case py_pow delta (- 2) of
          Inl e \<Rightarrow> Inl e
        | Inr r \<Rightarrow> Inr (scaleR r (cross_sum f argnum delta args kwargs x
                                     (flat_pos (shape x) i) (flat_pos (shape x) j))),
        cross_calls args argnum delta kwargs x (flat_pos (shape x) i) (flat_pos (shape x) j)))"
proof -
  have chk: "check_idx x [i, j] = None"
    using assms(5,6) by (intro check_idx_in_bounds) simp
  have head: "fd_second_order_centered f argnum delta args (Some [i, j]) kwargs
     = (if i = j then fd2_diagonal f argnum delta args kwargs x i
        else fd2_off_diagonal f argnum delta args kwargs x i j)"
    using assms(1-4) chk by (simp add: fd_second_order_centered_def py_getitem_valid)
  have mi: "np_iadd (zeros_like x) i h = Inr (shift_at x (flat_pos (shape x) i) h)" for h
    using assms(5) by (rule np_iadd_zeros)
  have mj: "np_iadd (zeros_like x) j h = Inr (shift_at x (flat_pos (shape x) j) h)" for h
    using assms(6) by (rule np_iadd_zeros)
  have d: "fd2_diagonal f argnum delta args kwargs x i
     = (case py_pow delta (- 2) of
          Inl e \<Rightarrow> Inl e
        | Inr r \<Rightarrow> Inr (scaleR r (diag_sum f argnum delta args kwargs x (flat_pos (shape x) i))),
        diag_calls args argnum delta kwargs x (flat_pos (shape x) i))"
    unfolding fd2_diagonal_def mi sum.case Let_def diag_sum_def diag_calls_def by simp
  have o: "fd2_off_diagonal f argnum delta args kwargs x i j
     = (case py_pow delta (- 2) of
          Inl e \<Rightarrow> Inl e
        | Inr r \<Rightarrow> Inr (scaleR r (cross_sum f argnum delta args kwargs x
                                     (flat_pos (shape x) i) (flat_pos (shape x) j))),
        cross_calls args argnum delta kwargs x (flat_pos (shape x) i) (flat_pos (shape x) j))"
    unfolding fd2_off_diagonal_def mi mj sum.case Let_def cross_sum_def cross_calls_def by simp
  show ?thesis unfolding head d o by simp
qed

section \<open>Linear functions\<close>

lemma dot_add:
  "length as = length xs \<Longrightarrow> length xs = length ss \<Longrightarrow>
   sum_list (map2 (*) as (map2 (+) xs ss))
     = sum_list (map2 (*) as xs) + sum_list (map2 (*) as (ss :: real list))"
  by (induction as xs ss rule: list_induct3) (simp_all add: algebra_simps)

lemma dot_sub:
  "length as = length xs \<Longrightarrow> length xs = length ss \<Longrightarrow>
   sum_list (map2 (*) as (map2 (-) xs ss))
     = sum_list (map2 (*) as xs) - sum_list (map2 (*) as (ss :: real list))"
  by (induction as xs ss rule: list_induct3) (simp_all add: algebra_simps)

lemma dot_zero: "sum_list (map2 (*) as (replicate n (0::real))) = 0"
proof (induction as arbitrary: n)
  case Nil
  then show ?case by simp
next
  case (Cons a as)
  then show ?case by (cases n) simp_all
qed

lemma dot_hot:
  "p < length as \<Longrightarrow>
   sum_list (map2 (*) as ((replicate (length as) 0)[p := h])) = as ! p * (h :: real)"
proof (induction as arbitrary: p)
  case Nil
  then show ?case by simp
next
  case (Cons a as)
  show ?case
  proof (cases p)
    case 0
    then show ?thesis by (simp add: dot_zero)
  next
    case (Suc q)
    with Cons show ?thesis by simp
  qed
qed

lemma np_dot_shift:
  assumes "wf_array x" "wf_array A" "shape A = shape x" "p < prod_list (shape x)"
    and "dtype x = Float64"
  shows "np_dot A (np_add x (shift_at x p h)) - np_dot A (np_sub x (shift_at x p h))
           = 2 * h * data A ! p"
proof -
  let ?n = "length (data A)"
  have l: "length (data A) = length (data x)"
    "length (data x) = length ((replicate ?n (0::real))[p := h])"
    using assms by (simp_all add: wf_array_def)
  have n: "np_size x = ?n" using assms by (simp add: np_size_def wf_array_def)
  have p: "p < ?n" using assms by (simp add: wf_array_def)
  show ?thesis
    unfolding np_dot_def np_add_def np_sub_def shift_at_def n assms(5) astype_def
    by (simp add: dot_add[OF l] dot_sub[OF l] dot_hot[OF p])
qed

section \<open>Validation of a supplied index list\<close>

text \<open>
  C6. For both operators, with a target argument \<open>x = args[argnum]\<close> that exists: if the
  supplied \<^verbatim>\<open>idx\<close> contains a tuple whose length differs from the dimensionality of
  \<open>x\<close> or a tuple with a component exceeding the size of its axis minus one, or, for
  the second-order operator, holds more than two tuples, then the call raises a value
  error and the user function is never evaluated: the trace of calls is empty.
\<close>

theorem fd_idx_validated:
  fixes f :: "real ndarray list \<Rightarrow> 'k \<Rightarrow> 'r::real_vector"
  assumes "py_getitem args argnum = Inr x"
  shows "(list_ex (bad_tuple x) ts \<longrightarrow>
           (\<exists>m. fd_first_order_centered f argnum delta args (Some ts) kwargs
                  = (Inl (ValueError m), [])))
       \<and> (list_ex (bad_tuple x) ts \<or> 2 < length ts \<longrightarrow>
           (\<exists>m. fd_second_order_centered f argnum delta args (Some ts) kwargs
                  = (Inl (ValueError m), [])))"
proof (intro conjI impI)
  assume "list_ex (bad_tuple x) ts"
  then obtain m where "check_idx x ts = Some (ValueError m)" using check_idx_bad by blast
  then show "\<exists>m. fd_first_order_centered f argnum delta args (Some ts) kwargs
                  = (Inl (ValueError m), [])"
    using assms by (simp add: fd_first_order_centered_def)
next
  assume a: "list_ex (bad_tuple x) ts \<or> 2 < length ts"
  show "\<exists>m. fd_second_order_centered f argnum delta args (Some ts) kwargs
                  = (Inl (ValueError m), [])"
  proof (cases "2 < length ts")
    case True
    then show ?thesis using assms by (simp add: fd_second_order_centered_def)
  next
    case False
    with a obtain m where "check_idx x ts = Some (ValueError m)" using check_idx_bad by blast
    then show ?thesis using assms by (simp add: fd_second_order_centered_def)
  qed
qed

theorem fd_idx_validated_witness:
  "py_getitem [np_vector Float64 [1, 2, 3]] 0 = Inr (np_vector Float64 [1, 2, 3]) \<and>
   bad_tuple (np_vector Float64 [1, 2, 3]) [3] \<and>
   bad_tuple (np_vector Float64 [1, 2, 3]) [0, 0] \<and>
   fd_first_order_centered sq_sum 0 1 [np_vector Float64 [1, 2, 3]] (Some [[0], [3], [0, 0]]) ()
     = (Inl (ValueError (IdxBoundsMsg [2] [3])), []) \<and>
   fd_second_order_centered sq_sum 0 1 [np_vector Float64 [1, 2, 3]] (Some [[0], [3], [0, 0]]) ()
     = (Inl (ValueError (IdxCountMsg 3)), [])"
  using fd_idx_validated [of "[np_vector Float64 [1, 2, 3]]" 0 "np_vector Float64 [1, 2, 3]"
      "[[0], [3], [0, 0]]" sq_sum 1 "()"]
  by (simp add: model_defs bad_tuple_def)

section \<open>The first-order operator\<close>

text \<open>
  C5 (as amended). For every valid \<^verbatim>\<open>argnum\<close>, every \<open>delta > 0\<close> whose power
  \<^verbatim>\<open>delta ** -1\<close> is within the range of a float, a \<^verbatim>\<open>float64\<close> array \<open>x = args[argnum]\<close> and
  an \<^verbatim>\<open>idx\<close> that is absent or holds only tuples of the right length with
  \<open>-size \<le> c \<le> size - 1\<close> on every axis, \<^verbatim>\<open>_fd_first_order_centered\<close> returns a container of
  dtype object with the shape of \<open>x\<close> whose entry at each requested index is
  \<open>(f(x + shift) - f(x - shift)) / delta\<close>, where \<open>shift\<close> is zero everywhere except
  \<open>delta / 2\<close> at that index. When \<^verbatim>\<open>idx\<close> is absent this holds at every multi-index of the
  shape of \<open>x\<close>. \<open>f\<close> is called twice per requested index, with the argument at \<^verbatim>\<open>argnum\<close>
  replaced and every other positional argument and the keyword arguments unchanged.
\<close>

theorem fd1_gradient:
  fixes f :: "real ndarray list \<Rightarrow> 'k \<Rightarrow> 'r::real_vector"
  assumes "0 \<le> argnum" and "argnum < int (length args)"
    and "0 < delta" and "pow_in_range delta (- 1)"
    and "x = args ! nat argnum" and "dtype x = Float64"
    and "idx_in_bounds x idx"
  shows "\<exists>g. fd_first_order_centered f argnum delta args idx kwargs
            = (Inr g, concat (map (\<lambda>t.
                  [(args[nat argnum := np_add x (one_hot x t (delta / 2))], kwargs),
                   (args[nat argnum := np_sub x (one_hot x t (delta / 2))], kwargs)])
                (requested x idx)))
          \<and> shape g = shape x \<and> dtype g = Object \<and> wf_array g
          \<and> (\<forall>t \<in> set (requested x idx). np_item g t
                = Inr (Value ((f (args[nat argnum := np_add x (one_hot x t (delta / 2))]) kwargs
                               - f (args[nat argnum := np_sub x (one_hot x t (delta / 2))]) kwargs)
                              /\<^sub>R delta)))
          \<and> (idx = None \<longrightarrow> (\<forall>t. multi_index (shape x) t \<longrightarrow> np_item g t
                = Inr (Value ((f (args[nat argnum := np_add x (one_hot x t (delta / 2))]) kwargs
                               - f (args[nat argnum := np_sub x (one_hot x t (delta / 2))]) kwargs)
                              /\<^sub>R delta))))"
proof -
  let ?q = "\<lambda>t. (f (args[nat argnum := np_add x (one_hot x t (delta / 2))]) kwargs
                 - f (args[nat argnum := np_sub x (one_hot x t (delta / 2))]) kwargs) /\<^sub>R delta"
  from fd1_result[OF assms(1-5) assms(7), of f kwargs] obtain g where
    run: "fd_first_order_centered f argnum delta args idx kwargs
       = (Inr g, concat (map (\<lambda>t. fd1_calls args argnum delta kwargs x (flat_pos (shape x) t))
                          (requested x idx)))"
    and sh: "shape g = shape x" "dtype g = Object" "length (data g) = prod_list (shape x)"
    and it: "\<forall>t. in_bounds (shape x) t \<longrightarrow> np_item g t =
                Inr (if flat_pos (shape x) t \<in> flat_pos (shape x) ` set (requested x idx)
                     then Value (fd1_diff f argnum delta args kwargs x (flat_pos (shape x) t)
                                 /\<^sub>R delta)
                     else Zero)"
    by blast
  have rq: "np_item g t = Inr (Value (?q t))" if "t \<in> set (requested x idx)" for t
  proof -
    from requested_in_bounds[OF assms(7)] that have "in_bounds (shape x) t"
      by (simp add: list_all_iff)
    with it that show ?thesis
      by (simp add: fd1_diff_valid[OF assms(1,2,6)])
  qed
  have al: "np_item g t = Inr (Value (?q t))" if "idx = None" "multi_index (shape x) t" for t
  proof -
    from that have "t \<in> set (requested x idx)"
      by (simp add: requested_def ndindex_multi_index)
    then show ?thesis by (rule rq)
  qed
  have tr: "fd_first_order_centered f argnum delta args idx kwargs
            = (Inr g, concat (map (\<lambda>t.
                  [(args[nat argnum := np_add x (one_hot x t (delta / 2))], kwargs),
                   (args[nat argnum := np_sub x (one_hot x t (delta / 2))], kwargs)])
                (requested x idx)))"
    using run by (simp add: fd1_calls_valid[OF assms(1,2,6)])
  show ?thesis
    using tr sh rq al by (intro exI[of _ g]) (simp add: wf_array_def)
qed

theorem fd1_gradient_witness:
  "(0::int) \<le> 0 \<and> (0::int) < int (length [np_vector Float64 [1, 2, 3]]) \<and> (0::real) < 1 \<and>
   pow_in_range 1 (- 1) \<and> dtype (np_vector Float64 [1, 2, 3]) = Float64 \<and>
   idx_in_bounds (np_vector Float64 [1, 2, 3]) None \<and>
   multi_index [3] [0] \<and> multi_index [3] [1] \<and> multi_index [3] [2] \<and>
   fd_first_order_centered sq_sum 0 1 [np_vector Float64 [1, 2, 3]] None ()
     = (Inr \<lparr>shape = [3], dtype = Object, data = [Value 12, Value 12, Value 12]\<rparr>,
        [([np_vector Float64 [3 / 2, 2, 3]], ()), ([np_vector Float64 [1 / 2, 2, 3]], ()),
         ([np_vector Float64 [1, 5 / 2, 3]], ()), ([np_vector Float64 [1, 3 / 2, 3]], ()),
         ([np_vector Float64 [1, 2, 7 / 2]], ()), ([np_vector Float64 [1, 2, 5 / 2]], ())])"
  using fd1_gradient [of 0 "[np_vector Float64 [1, 2, 3]]" 1 "np_vector Float64 [1, 2, 3]"
      None sq_sum "()"]
  by (simp add: model_defs idx_in_bounds_def multi_index_def pow_in_range_def sq_sum_def
      power2_eq_square numeral_3_eq_3)

text \<open>
  Three runs outside these conditions. The index list \<open>[(0,), (-5,)]\<close> passes the
  validation on an array of shape \<open>(3,)\<close>, and the call raises an index error after the
  two evaluations of \<open>f\<close> for the first tuple. With the integer argument \<open>1\<close> the shift
  \<open>1/2\<close> is truncated to zero: \<open>f\<close> is evaluated twice at \<open>1\<close> and the entry is \<open>0\<close>, where
  the quotient of the claim is \<open>2\<close>. With \<open>delta = 2\<^sup>-\<^sup>1\<^sup>0\<^sup>3\<^sup>0\<close> the power \<^verbatim>\<open>delta ** -1\<close>
  overflows.
\<close>

theorem fd1_gradient_counterexample:
  "check_idx (np_vector Float64 [1, 2, 3]) [[0], [- 5]] = None \<and>
   fd_first_order_centered sq_sum 0 1 [np_vector Float64 [1, 2, 3]] (Some [[0], [- 5]]) ()
     = (Inl IndexError,
        [([np_vector Float64 [3 / 2, 2, 3]], ()), ([np_vector Float64 [1 / 2, 2, 3]], ())]) \<and>
   fd_first_order_centered sq_sum 0 1 [np_int 1] None ()
     = (Inr \<lparr>shape = [], dtype = Object, data = [Value 0]\<rparr>,
        [([np_int 1], ()), ([np_int 1], ())]) \<and>
   (sq_sum [np_add (np_int 1) (one_hot (np_int 1) [] (1 / 2))] ()
    - sq_sum [np_sub (np_int 1) (one_hot (np_int 1) [] (1 / 2))] ()) /\<^sub>R 1 = 2 \<and>
   fst (fd_first_order_centered sq_sum 0 (1 / 2 ^ 1030) [np_float 1] None ())
     = Inl OverflowError"
  by (simp add: model_defs one_hot_def sq_sum_def power2_eq_square numeral_3_eq_3 Let_def)

text \<open>
  C7 (as amended). For a linear function of the target argument, \<open>f(x) = A \<cdot> x\<close> with a
  coefficient for every element of a \<^verbatim>\<open>float64\<close> array \<open>x\<close>, the first-order operator
  returns at every requested index exactly the coefficient at that index, for every
  \<open>delta > 0\<close> whose power \<^verbatim>\<open>delta ** -1\<close> is within the range of a float and every \<^verbatim>\<open>idx\<close>
  that is absent or holds only tuples within the bounds of \<open>x\<close>; when \<^verbatim>\<open>idx\<close> is absent,
  at every multi-index of the shape of \<open>x\<close>.
\<close>

theorem fd1_linear_exact:
  assumes "0 \<le> argnum" and "argnum < int (length args)"
    and "0 < delta" and "pow_in_range delta (- 1)"
    and "x = args ! nat argnum" and "dtype x = Float64" and "wf_array x"
    and "wf_array A" and "shape A = shape x"
    and "idx_in_bounds x idx"
  shows "\<exists>g tr. fd_first_order_centered (linear_form A (nat argnum)) argnum delta args idx kwargs
                 = (Inr g, tr)
          \<and> (\<forall>t \<in> set (requested x idx).
                \<exists>a. np_item A t = Inr a \<and> np_item g t = Inr (Value a))
          \<and> (idx = None \<longrightarrow> (\<forall>t. multi_index (shape x) t \<longrightarrow>
                (\<exists>a. np_item A t = Inr a \<and> np_item g t = Inr (Value a))))"
proof -
  let ?f = "linear_form A (nat argnum) :: real ndarray list \<Rightarrow> 'a \<Rightarrow> real"
  from fd1_result[OF assms(1-5) assms(10), of ?f kwargs] obtain g tr where
    run: "fd_first_order_centered ?f argnum delta args idx kwargs = (Inr g, tr)"
    and it: "\<forall>t. in_bounds (shape x) t \<longrightarrow> np_item g t =
                Inr (if flat_pos (shape x) t \<in> flat_pos (shape x) ` set (requested x idx)
                     then Value (fd1_diff ?f argnum delta args kwargs x (flat_pos (shape x) t)
                                 /\<^sub>R delta)
                     else Zero)"
    by blast
  have n: "nat argnum < length args" using assms(1,2) by simp
  have rq: "\<exists>a. np_item A t = Inr a \<and> np_item g t = Inr (Value a)"
    if t: "t \<in> set (requested x idx)" for t
  proof -
    from requested_in_bounds[OF assms(10)] t have b: "in_bounds (shape x) t"
      by (simp add: list_all_iff)
    then have p: "flat_pos (shape x) t < prod_list (shape x)" using locate_in_bounds by blast
    have a: "np_item A t = Inr (data A ! flat_pos (shape x) t)"
      using np_item_in_bounds[of A t] b assms(9) by simp
    have "fd1_diff ?f argnum delta args kwargs x (flat_pos (shape x) t) /\<^sub>R delta
            = inverse delta * (2 * (0.5 * delta) * data A ! flat_pos (shape x) t)"
      unfolding fd1_diff_def linear_form_def call_args_valid[OF assms(1,2)]
        nth_list_update_eq[OF n] np_dot_shift[OF assms(7,8,9) p assms(6)]
      by simp
    also have "\<dots> = data A ! flat_pos (shape x) t" using assms(3) by simp
    finally show ?thesis using a it b t by simp
  qed
  have al: "\<exists>a. np_item A t = Inr a \<and> np_item g t = Inr (Value a)"
    if "idx = None" "multi_index (shape x) t" for t
  proof -
    from that have "t \<in> set (requested x idx)"
      by (simp add: requested_def ndindex_multi_index)
    then show ?thesis by (rule rq)
  qed
  from run rq al show ?thesis by blast
qed

theorem fd1_linear_exact_witness:
  "(0::int) \<le> 0 \<and> (0::int) < int (length [np_vector Float64 [1, 2]]) \<and> (0::real) < 1 / 4 \<and>
   pow_in_range (1 / 4) (- 1) \<and> dtype (np_vector Float64 [1, 2]) = Float64 \<and>
   wf_array (np_vector Float64 [1, 2]) \<and> wf_array (np_vector Float64 [5, 7]) \<and>
   idx_in_bounds (np_vector Float64 [1, 2]) None \<and>
   multi_index [2] [0] \<and> multi_index [2] [1] \<and>
   np_item (np_vector Float64 [5, 7]) [0] = Inr 5 \<and>
   np_item (np_vector Float64 [5, 7]) [1] = Inr 7 \<and>
   fst (fd_first_order_centered (linear_form (np_vector Float64 [5, 7]) (nat 0)) 0 (1 / 4)
      [np_vector Float64 [1, 2]] None ())
     = Inr \<lparr>shape = [2], dtype = Object, data = [Value 5, Value 7]\<rparr>"
  using fd1_linear_exact [of 0 "[np_vector Float64 [1, 2]]" "1 / 4" "np_vector Float64 [1, 2]"
      "np_vector Float64 [5, 7]" None "()"]
  by (simp add: model_defs idx_in_bounds_def multi_index_def pow_in_range_def wf_array_def
      np_item_def linear_form_def np_dot_def numeral_2_eq_2 Let_def)

text \<open>
  Three runs outside these conditions, for \<open>f(x) = 5 x\<close>. With the integer argument \<open>1\<close>
  and \<open>delta = 1/4\<close> the shift is truncated to zero and the entry is \<open>0\<close>, not \<open>5\<close>. A
  requested index \<open>(-5,)\<close> on an array of shape \<open>(3,)\<close> passes the validation and raises
  an index error. With \<open>delta = 2\<^sup>-\<^sup>1\<^sup>0\<^sup>3\<^sup>0\<close> the power \<^verbatim>\<open>delta ** -1\<close> overflows.
\<close>

theorem fd1_linear_exact_counterexample:
  "np_item (np_float 5) [] = Inr 5 \<and>
   fd_first_order_centered (linear_form (np_float 5) 0) 0 (1 / 4) [np_int 1] None ()
     = (Inr \<lparr>shape = [], dtype = Object, data = [Value 0]\<rparr>,
        [([np_int 1], ()), ([np_int 1], ())]) \<and>
   fd_first_order_centered (linear_form (np_vector Float64 [5, 5, 5]) 0) 0 (1 / 4)
      [np_vector Float64 [1, 2, 3]] (Some [[- 5]]) ()
     = (Inl IndexError, []) \<and>
   fst (fd_first_order_centered (linear_form (np_float 5) 0) 0 (1 / 2 ^ 1030) [np_float 1] None ())
     = Inl OverflowError"
  by (simp add: model_defs np_item_def linear_form_def np_dot_def numeral_3_eq_3 Let_def)

section \<open>The second-order operator\<close>




text \<open>
  C8. For every pair of distinct indices \<open>i \<noteq> j\<close> within bounds and every \<open>delta > 0\<close>,
  \<^verbatim>\<open>_fd_second_order_centered\<close> returns with \<^verbatim>\<open>idx = [j, i]\<close> what it returns with
  \<^verbatim>\<open>idx = [i, j]\<close>; on a \<^verbatim>\<open>float64\<close> array this is a value whenever the power \<^verbatim>\<open>delta ** -2\<close>
  is within the range of a float.
\<close>

theorem fd2_off_diagonal_symmetric:
  fixes f :: "real ndarray list \<Rightarrow> 'k \<Rightarrow> 'r::real_vector"
  assumes "0 \<le> argnum" and "argnum < int (length args)" and "0 < delta"
    and "x = args ! nat argnum"
    and "in_bounds (shape x) i" and "in_bounds (shape x) j" and "i \<noteq> j"
  shows "fst (fd_second_order_centered f argnum delta args (Some [j, i]) kwargs)
           = fst (fd_second_order_centered f argnum delta args (Some [i, j]) kwargs)
       \<and> (pow_in_range delta (- 2) \<and> dtype x = Float64 \<longrightarrow>
            (\<exists>v. fst (fd_second_order_centered f argnum delta args (Some [i, j]) kwargs) = Inr v
                \<and> fst (fd_second_order_centered f argnum delta args (Some [j, i]) kwargs) = Inr v))"
proof -
  have ne: "j \<noteq> i" using assms(7) by simp
  have cs: "cross_sum f argnum delta args kwargs x (flat_pos (shape x) j) (flat_pos (shape x) i)
              = cross_sum f argnum delta args kwargs x (flat_pos (shape x) i) (flat_pos (shape x) j)"
    by (rule cross_sum_exchange)
  have eq: "fst (fd_second_order_centered f argnum delta args (Some [j, i]) kwargs)
           = fst (fd_second_order_centered f argnum delta args (Some [i, j]) kwargs)"
    unfolding fd2_result[OF assms(1-6)] fd2_result[OF assms(1-4) assms(6) assms(5)] cs
    using assms(7) ne by simp
  have val: "\<exists>v. fst (fd_second_order_centered f argnum delta args (Some [i, j]) kwargs) = Inr v"
    if "pow_in_range delta (- 2) \<and> dtype x = Float64"
    unfolding fd2_result[OF assms(1-6)]
    using py_pow_in_range[of delta "- 2"] assms(3,7) that by simp
  from eq val show ?thesis by auto
qed

theorem fd2_off_diagonal_symmetric_witness:
  "(0::int) \<le> 0 \<and> (0::int) < int (length [np_vector Float64 [1, 2]]) \<and> (0::real) < 1 \<and>
   in_bounds [2] [0] \<and> in_bounds [2] [1] \<and> [0] \<noteq> [1 :: int] \<and> pow_in_range 1 (- 2) \<and>
   dtype (np_vector Float64 [1, 2]) = Float64 \<and>
   fst (fd_second_order_centered sq_sum 0 1 [np_vector Float64 [1, 2]] (Some [[0], [1]]) ())
     = Inr 2 \<and>
   fst (fd_second_order_centered sq_sum 0 1 [np_vector Float64 [1, 2]] (Some [[1], [0]]) ())
     = Inr 2"
  using fd2_off_diagonal_symmetric [of 0 "[np_vector Float64 [1, 2]]" 1
      "np_vector Float64 [1, 2]" "[0]" "[1]" sq_sum "()"]
  by (simp add: model_defs in_bounds_def pow_in_range_def sq_sum_def power2_eq_square
      numeral_2_eq_2 Let_def)

section \<open>Negative index components\<close>




section \<open>The operation \<^verbatim>\<open>finite_diff\<close>\<close>

text \<open>
  C3 (as amended). For every \<open>F\<close> and every \<open>delta \<noteq> 0\<close> whose power \<^verbatim>\<open>delta ** -1\<close> is within
  the range of a float: if \<open>x\<close> is a scalar, \<^verbatim>\<open>finite_diff(F, x, i, delta)\<close> returns
  \<open>(F(x + delta/2) - F(x - delta/2)) / delta\<close>, whatever \<open>i\<close> is; if \<open>x\<close> is a
  one-dimensional \<^verbatim>\<open>float64\<close> array and \<open>0 \<le> i < x.size\<close>, it returns
  \<open>(F(x + d) - F(x - d)) / delta\<close> where \<open>d\<close> is zero everywhere except \<open>delta / 2\<close> at
  position \<open>i\<close>. \<open>F\<close> is evaluated at these two points, in this order.
\<close>

theorem finite_diff_estimator:
  fixes F :: "pyvalue \<Rightarrow> 'r::real_vector"
  assumes "delta \<noteq> 0" and "pow_in_range delta (- 1)"
  shows "finite_diff F (Scalar v) i delta
           = (Inr ((F (Scalar (v + delta / 2)) - F (Scalar (v - delta / 2))) /\<^sub>R delta),
              [Scalar (v + delta / 2), Scalar (v - delta / 2)])
       \<and> (dtype a = Float64 \<and> ndim a = 1 \<and> 0 \<le> k \<and> k < int (np_size a) \<longrightarrow>
           finite_diff F (NdArray a) (Some k) delta
             = (Inr ((F (NdArray (np_add a (one_hot a [k] (delta / 2))))
                      - F (NdArray (np_sub a (one_hot a [k] (delta / 2))))) /\<^sub>R delta),
                [NdArray (np_add a (one_hot a [k] (delta / 2))),
                 NdArray (np_sub a (one_hot a [k] (delta / 2)))]))"
proof (intro conjI impI)
  have pw: "py_pow delta (- 1) = Inr (inverse delta)"
    using py_pow_in_range[OF assms] by simp
  show "finite_diff F (Scalar v) i delta
           = (Inr ((F (Scalar (v + delta / 2)) - F (Scalar (v - delta / 2))) /\<^sub>R delta),
              [Scalar (v + delta / 2), Scalar (v - delta / 2)])"
    by (simp add: finite_diff_def pw)
  assume h: "dtype a = Float64 \<and> ndim a = 1 \<and> 0 \<le> k \<and> k < int (np_size a)"
  then obtain n where sh: "shape a = [n]"
    by (cases "shape a") (auto simp: ndim_def)
  with h have k: "0 \<le> k" "k < int n" by (simp_all add: np_size_def)
  then have b: "in_bounds (shape a) [k]" using sh by simp
  have m: "np_setitem (zeros_like a) [k] (0.5 * delta) = Inr (one_hot a [k] (delta / 2))"
    using np_setitem_zeros[OF b, of "0.5 * delta"] shift_at_float[of a "[k]" "0.5 * delta"] h
    by simp
  show "finite_diff F (NdArray a) (Some k) delta
             = (Inr ((F (NdArray (np_add a (one_hot a [k] (delta / 2))))
                      - F (NdArray (np_sub a (one_hot a [k] (delta / 2))))) /\<^sub>R delta),
                [NdArray (np_add a (one_hot a [k] (delta / 2))),
                 NdArray (np_sub a (one_hot a [k] (delta / 2)))])"
    unfolding finite_diff_def pyvalue.case option.case m pw
    using h by simp
qed

theorem finite_diff_estimator_witness:
  "(1 / 2 :: real) \<noteq> 0 \<and> pow_in_range (1 / 2) (- 1) \<and>
   dtype (np_vector Float64 [1, 2, 3]) = Float64 \<and> ndim (np_vector Float64 [1, 2, 3]) = 1 \<and>
   (0::int) \<le> 2 \<and> (2::int) < int (np_size (np_vector Float64 [1, 2, 3])) \<and>
   one_hot (np_vector Float64 [1, 2, 3]) [2] (1 / 2 / 2) = np_vector Float64 [0, 0, 1 / 4] \<and>
   finite_diff sum_elems (Scalar 3) None (1 / 2) = (Inr 1, [Scalar (13 / 4), Scalar (11 / 4)]) \<and>
   finite_diff sum_elems (NdArray (np_vector Float64 [1, 2, 3])) (Some 2) (1 / 2)
     = (Inr 1, [NdArray (np_vector Float64 [1, 2, 13 / 4]),
                NdArray (np_vector Float64 [1, 2, 11 / 4])])"
  using finite_diff_estimator [of "1 / 2" sum_elems 3 None "np_vector Float64 [1, 2, 3]" 2]
  by (simp add: model_defs pow_in_range_def sum_elems_def one_hot_def numeral_3_eq_3 Let_def)

text \<open>
  Four runs outside these conditions. With \<open>delta = 0\<close> the power \<^verbatim>\<open>delta ** -1\<close> raises
  after both evaluations of \<open>F\<close>, and with \<open>delta = 2\<^sup>-\<^sup>1\<^sup>0\<^sup>3\<^sup>0\<close> it overflows. On the integer
  array \<open>[1, 2, 3]\<close> with \<open>delta = 1/2\<close> the perturbation is truncated to zero: \<open>F\<close> is
  evaluated twice at \<open>x\<close> and the result is \<open>0\<close>, where the quotient of the claim for the
  sum of the elements is \<open>1\<close>. On a \<open>2 \<times> 2\<close> array, of size \<open>4\<close>, the integer \<open>i\<close> indexes
  the first axis: \<open>i = 3\<close> raises an index error, and \<open>i = 0\<close> perturbs the whole first
  row, so that the sum of the elements gets the quotient \<open>2\<close> where a perturbation of
  the single element at position \<open>0\<close> gives \<open>1\<close>.
\<close>

theorem finite_diff_two_dim_counterexample:
  "finite_diff sum_elems (Scalar 3) None 0 = (Inl ZeroDivisionError, [Scalar 3, Scalar 3]) \<and>
   fst (finite_diff sum_elems (Scalar 3) None (1 / 2 ^ 1030)) = Inl OverflowError \<and>
   finite_diff sum_elems (NdArray (np_vector Int64 [1, 2, 3])) (Some 2) (1 / 2)
     = (Inr 0, [NdArray (np_vector Int64 [1, 2, 3]), NdArray (np_vector Int64 [1, 2, 3])]) \<and>
   (sum_elems (NdArray (np_add (np_vector Int64 [1, 2, 3])
                          (one_hot (np_vector Int64 [1, 2, 3]) [2] (1 / 2 / 2))))
    - sum_elems (NdArray (np_sub (np_vector Int64 [1, 2, 3])
                          (one_hot (np_vector Int64 [1, 2, 3]) [2] (1 / 2 / 2)))))
     /\<^sub>R (1 / 2) = 1 \<and>
   np_size \<lparr>shape = [2, 2], dtype = Float64, data = [0, 0, 0, 0 :: real]\<rparr> = 4 \<and>
   finite_diff sum_elems (NdArray \<lparr>shape = [2, 2], dtype = Float64, data = [0, 0, 0, 0]\<rparr>)
      (Some 3) 2
     = (Inl IndexError, []) \<and>
   finite_diff sum_elems (NdArray \<lparr>shape = [2, 2], dtype = Float64, data = [0, 0, 0, 0]\<rparr>)
      (Some 0) 2
     = (Inr 2, [NdArray \<lparr>shape = [2, 2], dtype = Float64, data = [1, 1, 0, 0]\<rparr>,
                NdArray \<lparr>shape = [2, 2], dtype = Float64, data = [- 1, - 1, 0, 0]\<rparr>]) \<and>
   (sum_elems (NdArray (np_add \<lparr>shape = [2, 2], dtype = Float64, data = [0, 0, 0, 0]\<rparr>
       (one_hot \<lparr>shape = [2, 2], dtype = Float64, data = [0, 0, 0, 0 :: real]\<rparr> [0, 0] (2 / 2))))
    - sum_elems (NdArray (np_sub \<lparr>shape = [2, 2], dtype = Float64, data = [0, 0, 0, 0]\<rparr>
       (one_hot \<lparr>shape = [2, 2], dtype = Float64, data = [0, 0, 0, 0 :: real]\<rparr> [0, 0] (2 / 2)))))
     /\<^sub>R 2 = 1"
  by (simp add: model_defs sum_elems_def one_hot_def numeral_2_eq_2 numeral_3_eq_3 Let_def)

end
